theory Spec2Isabelle
  imports Main
begin

section \<open>The accelerator pipeline of \<^verbatim>\<open>lib/pipeline.ts\<close>\<close>

text \<open>
  The file \<^verbatim>\<open>source/packages/@aws-accelerator/accelerator/lib/pipeline.ts\<close> declares one
  class, \<^verbatim>\<open>AcceleratorPipeline\<close>, whose constructor describes a CodePipeline pipeline
  (a bucket, a configuration repository, two CodeBuild projects and a list of stages) and
  whose private method \<^verbatim>\<open>createToolkitStage\<close> builds the CodeBuild action of one toolkit
  operation. The embedding below follows the file from top to bottom. Objects of the CDK
  library are records of the properties the file passes to them. The library itself
  (\<^verbatim>\<open>aws-cdk-lib\<close>) is outside the file: where one of its constructors checks a value that
  the constructor of the class computes from its properties, and throws, the check is a
  parameter of the embedding (the record \<open>Library\<close> below).
\<close>

subsection \<open>JavaScript values\<close>

text \<open>
  An optional property \<^verbatim>\<open>p?: string\<close> is a \<open>string option\<close>, \<open>None\<close> for
  \<^verbatim>\<open>undefined\<close>. The three ways the file reads such a property differ on the empty
  string and are kept apart:
  \<^item> \<open>truthy\<close>: the condition \<^verbatim>\<open>if (p)\<close>, \<^verbatim>\<open>p && q\<close> or \<^verbatim>\<open>p ? a : b\<close>, false for
    \<^verbatim>\<open>undefined\<close> and for \<^verbatim>\<open>''\<close>;
  \<^item> \<open>nullish\<close>: the operator \<^verbatim>\<open>p ?? d\<close>, which yields \<open>d\<close> for \<^verbatim>\<open>undefined\<close> only;
  \<^item> \<open>interpolate\<close>: the template literal \<^verbatim>\<open>`${p}`\<close>, which prints \<^verbatim>\<open>undefined\<close>
    as the nine letters of that word.
\<close>

definition truthy :: "string option \<Rightarrow> bool" where
  "truthy p = (case p of None \<Rightarrow> False | Some s \<Rightarrow> s \<noteq> [])"

definition nullish :: "'a option \<Rightarrow> 'a \<Rightarrow> 'a" where
  "nullish p d = (case p of None \<Rightarrow> d | Some v \<Rightarrow> v)"

definition interpolate :: "string option \<Rightarrow> string" where
  "interpolate p = (case p of None \<Rightarrow> ''undefined'' | Some s \<Rightarrow> s)"

text \<open>
  An object literal used as a dictionary is an association list in insertion order.
  \<open>assign\<close> is the assignment \<^verbatim>\<open>obj[k] = v\<close>: an existing key keeps its place, a new
  key goes last. \<open>spread\<close> is \<^verbatim>\<open>{ ...obj, ...more }\<close>, where spreading \<^verbatim>\<open>undefined\<close> adds
  nothing.
\<close>

fun assign :: "'k \<Rightarrow> 'v \<Rightarrow> ('k \<times> 'v) list \<Rightarrow> ('k \<times> 'v) list" where
  "assign k v [] = [(k, v)]"
| "assign k v ((k', v') # kvs) = (if k' = k then (k, v) # kvs else (k', v') # assign k v kvs)"

fun spread :: "('k \<times> 'v) list \<Rightarrow> ('k \<times> 'v) list option \<Rightarrow> ('k \<times> 'v) list" where
  "spread obj None = obj"
| "spread obj (Some []) = obj"
| "spread obj (Some ((k, v) # more)) = spread (assign k v obj) (Some more)"

text \<open>
  No statement of the file itself throws; the constructor fails where a constructor of the
  library it calls throws. An exception is a value of the type \<open>error\<close>, and a computation
  that may throw returns \<open>error + 'a\<close>, with \<open>Inl\<close> for the exception.
  \<open>createToolkitStage\<close> has this result type as well, so that a statement about its
  failing can be written down and decided.
\<close>

datatype error = ConfigurationError string

subsection \<open>Imported names\<close>

text \<open>
  Modelled from the spec: the enumeration \<^verbatim>\<open>AcceleratorToolkitCommand\<close> of
  \<^verbatim>\<open>./toolkit\<close>, which is not among the source files. The file compares the command with
  \<^verbatim>\<open>AcceleratorToolkitCommand.BOOTSTRAP.toString()\<close> and \<^verbatim>\<open>...DIFF.toString()\<close>; the spec
  names the verbs \<^verbatim>\<open>bootstrap\<close>, \<^verbatim>\<open>diff\<close> and \<^verbatim>\<open>deploy\<close>.
\<close>

datatype AcceleratorToolkitCommand = BOOTSTRAP | DIFF | DEPLOY

fun toString :: "AcceleratorToolkitCommand \<Rightarrow> string" where
  "toString BOOTSTRAP = ''bootstrap''"
| "toString DIFF = ''diff''"
| "toString DEPLOY = ''deploy''"

text \<open>
  The string enumeration \<^verbatim>\<open>AcceleratorStage\<close> of \<^verbatim>\<open>./accelerator-stage\<close> is not among
  the source files either. Its members are the stage tags the constructor passes on; their
  values are a parameter of the constructor, one field for each member the file uses.
\<close>

record AcceleratorStage =
  PREPARE :: string
  ACCOUNTS :: string
  LOGGING :: string
  ORGANIZATIONS :: string
  SECURITY_AUDIT :: string
  NETWORK_PREP :: string
  SECURITY :: string
  OPERATIONS :: string
  NETWORK_VPC :: string
  NETWORK_ASSOCIATIONS :: string

text \<open>
  The values the CDK resolves from the enclosing stack: \<^verbatim>\<open>cdk.Stack.of(this).account\<close>,
  \<^verbatim>\<open>cdk.Stack.of(this).region\<close> and \<^verbatim>\<open>cdk.Aws.PARTITION\<close>.
\<close>

record Stack =
  account :: string
  region :: string
  PARTITION :: string

subsection \<open>The data model\<close>

record AcceleratorPipelineProps =
  sourceRepositoryName :: string
  sourceBranchName :: string
  enableApprovalStage :: bool
  qualifier :: "string option"
  managementAccountId :: "string option"
  managementAccountRoleName :: "string option"

datatype BuildEnvironmentVariableType = PLAINTEXT | PARAMETER_STORE | SECRETS_MANAGER

record BuildEnvironmentVariable =
  envType :: BuildEnvironmentVariableType
  envValue :: string

type_synonym EnvironmentVariables = "(string \<times> BuildEnvironmentVariable) list"

datatype Artifact = Artifact string

datatype BucketEncryptionType = SSE_KMS | SSE_S3

record Suppression =
  ruleId :: string
  reason :: string

record Bucket =
  encryptionType :: BucketEncryptionType
  s3BucketName :: string
  kmsAliasName :: string
  kmsDescription :: string
  bucketSuppress :: "Suppression list"

record ConfigRepository =
  repositoryName :: string
  repositoryBranchName :: string
  description :: string

datatype Repository = fromRepositoryName string | getRepository ConfigRepository

record Role =
  roleId :: string
  assumedBy :: string
  managedPolicies :: "string list"

datatype LinuxBuildImage = STANDARD_5_0

datatype ComputeType = SMALL | MEDIUM | LARGE

datatype Cache = LocalSource

datatype Duration = hours int

record BuildSpecArtifacts =
  files :: "string list"
  enableSymlinks :: string

record BuildSpec =
  version :: string
  nodejs :: int
  commands :: "string list"
  artifacts :: "BuildSpecArtifacts option"

record BuildEnvironment =
  buildImage :: LinuxBuildImage
  privileged :: bool
  computeType :: ComputeType
  projectVariables :: EnvironmentVariables

record PipelineProject =
  projectName :: string
  projectRole :: Role
  timeout :: "Duration option"
  buildSpec :: BuildSpec
  environment :: BuildEnvironment
  cache :: Cache

text \<open>
  The three kinds of action the file creates. They share the action name and the optional
  run order; \<open>None\<close> is a run order the file leaves out.
\<close>

record CommonActionProps =
  actionName :: string
  runOrder :: "int option"

datatype CodeCommitTrigger = NONE | POLL | EVENTS

record CodeCommitSourceActionProps = CommonActionProps +
  repository :: Repository
  branch :: string
  sourceOutput :: Artifact
  trigger :: CodeCommitTrigger

record CodeBuildActionProps = CommonActionProps +
  project :: PipelineProject
  primaryInput :: Artifact
  extraInputs :: "Artifact list"
  outputs :: "Artifact list option"
  role :: Role
  environmentVariables :: "EnvironmentVariables option"

record ManualApprovalActionProps = CommonActionProps +
  additionalInformation :: string

datatype Action =
    CodeCommitSourceAction CodeCommitSourceActionProps
  | CodeBuildAction CodeBuildActionProps
  | ManualApprovalAction ManualApprovalActionProps

fun nameOf :: "Action \<Rightarrow> string" where
  "nameOf (CodeCommitSourceAction a) = actionName a"
| "nameOf (CodeBuildAction a) = actionName a"
| "nameOf (ManualApprovalAction a) = actionName a"

fun runOrderOf :: "Action \<Rightarrow> int option" where
  "runOrderOf (CodeCommitSourceAction a) = runOrder a"
| "runOrderOf (CodeBuildAction a) = runOrder a"
| "runOrderOf (ManualApprovalAction a) = runOrder a"

record StageProps =
  stageName :: string
  actions :: "Action list"

record Pipeline =
  pipelineName :: string
  artifactBucket :: Bucket
  pipelineRoleOf :: Role
  policySuppress :: "Suppression list"
  stages :: "StageProps list"

text \<open>
  The checks of the library. \<^verbatim>\<open>new codepipeline.Pipeline\<close> (line 106) receives a name built
  from the qualifier, and \<^verbatim>\<open>new codepipeline_actions.CodeCommitSourceAction\<close> (lines 131 and
  138) receives the branch; both constructors validate what they receive and throw on a
  value they refuse. A check maps the properties passed to the constructor to the
  exception thrown, \<open>None\<close> when the constructor returns. The theorems about the
  constructor hold for every such pair of checks.
\<close>

record Library =
  validatePipeline :: "Pipeline \<Rightarrow> error option"
  validateSourceAction :: "CodeCommitSourceActionProps \<Rightarrow> error option"

text \<open>
  One library, for the examples: a pipeline name has between 1 and 100 characters, each a
  letter, a digit or one of \<^verbatim>\<open>.@_-\<close>, and a branch is not the empty string.
\<close>

definition nameCharacter :: "char \<Rightarrow> bool" where
  "nameCharacter c =
     (c \<in> set ''abcdefghijklmnopqrstuvwxyzABCDEFGHIJKLMNOPQRSTUVWXYZ0123456789.@_-'')"

definition validName :: "string \<Rightarrow> bool" where
  "validName s = (1 \<le> length s \<and> length s \<le> 100 \<and> list_all nameCharacter s)"

definition awsCdkLib :: Library where
  "awsCdkLib =
     \<lparr>validatePipeline =
        (\<lambda>p. if validName (pipelineName p) then None
             else Some (ConfigurationError ''Pipeline name must match [a-zA-Z0-9.@_-]{1,100}'')),
      validateSourceAction =
        (\<lambda>a. if branch a = []
             then Some (ConfigurationError ''branch parameter cannot be an empty string'')
             else None)\<rparr>"

text \<open>
  The library that refuses nothing. A construction that succeeds under any library yields
  the description it yields under this one (lemma \<open>construction_Inr\<close> below).
\<close>

definition acceptAll :: Library where
  "acceptAll = \<lparr>validatePipeline = (\<lambda>p. None), validateSourceAction = (\<lambda>a. None)\<rparr>"

text \<open>The private fields of the class, which \<open>createToolkitStage\<close> reads.\<close>

record AcceleratorPipeline =
  pipelineRole :: Role
  toolkitRole :: Role
  toolkitProject :: PipelineProject
  buildOutput :: Artifact
  acceleratorRepoArtifact :: Artifact
  configRepoArtifact :: Artifact

text \<open>The object after construction: its fields and the constructs created under it.\<close>

record Construct =
  this :: AcceleratorPipeline
  bucket :: Bucket
  configRepository :: ConfigRepository
  buildProject :: PipelineProject
  pipeline :: Pipeline

subsection \<open>\<^verbatim>\<open>createToolkitStage\<close> (lines 370 to 411)\<close>

record ToolkitStageProps = CommonActionProps +
  command :: string
  stage :: "string option"

definition cdkOptions :: "ToolkitStageProps \<Rightarrow> string" where
  "cdkOptions props =
     (if command props = toString BOOTSTRAP \<or> command props = toString DIFF
      then command props
      else command props @ '' --stage '' @ interpolate (stage props))"

definition toolkitVariables :: "ToolkitStageProps \<Rightarrow> EnvironmentVariables" where
  "toolkitVariables props =
     (let environmentVariables =
            [(''CDK_OPTIONS'', \<lparr>envType = PLAINTEXT, envValue = cdkOptions props\<rparr>)]
      in if truthy (stage props)
         then assign ''ACCELERATOR_STAGE''
                \<lparr>envType = PLAINTEXT, envValue = nullish (stage props) ''''\<rparr>
                environmentVariables
         else environmentVariables)"

definition createToolkitStage :: "AcceleratorPipeline \<Rightarrow> ToolkitStageProps \<Rightarrow> error + Action" where
  "createToolkitStage self props =
     Inr (CodeBuildAction
       \<lparr>actionName = actionName props,
        runOrder = runOrder props,
        project = toolkitProject self,
        primaryInput = buildOutput self,
        extraInputs = [configRepoArtifact self],
        outputs = None,
        role = pipelineRole self,
        environmentVariables = Some (toolkitVariables props)\<rparr>)"

subsection \<open>The constructor (lines 52 to 368)\<close>

text \<open>
  Lines 55 to 68: the variables of the management account, set only when the account id
  and the role name are both truthy.
\<close>

definition pipelineAccountEnvVariables :: "AcceleratorPipelineProps \<Rightarrow> EnvironmentVariables option" where
  "pipelineAccountEnvVariables props =
     (if truthy (managementAccountId props) \<and> truthy (managementAccountRoleName props)
      then Some
        [(''MANAGEMENT_ACCOUNT_ID'',
            \<lparr>envType = PLAINTEXT, envValue = the (managementAccountId props)\<rparr>),
         (''MANAGEMENT_ACCOUNT_ROLE_NAME'',
            \<lparr>envType = PLAINTEXT, envValue = the (managementAccountRoleName props)\<rparr>)]
      else None)"

text \<open>Lines 70 to 90: the artifact bucket and its suppressed warning.\<close>

definition secureBucket :: "Stack \<Rightarrow> AcceleratorPipelineProps \<Rightarrow> Bucket" where
  "secureBucket stack props =
     \<lparr>encryptionType = SSE_KMS,
      s3BucketName = nullish (qualifier props) ''aws-accelerator'' @ ''-pipeline-''
        @ account stack @ ''-'' @ region stack,
      kmsAliasName = ''alias/'' @ nullish (qualifier props) ''aws-accelerator'' @ ''/pipeline/s3'',
      kmsDescription = ''AWS Accelerator Pipeline Bucket CMK'',
      bucketSuppress =
        [\<lparr>ruleId = ''W35'',
          reason = ''S3 Bucket access logging is not enabled for the pipeline artifacts bucket.''\<rparr>]\<rparr>"

text \<open>Lines 92 to 97: the configuration repository, on the branch \<^verbatim>\<open>main\<close>.\<close>

definition newConfigRepository :: "AcceleratorPipelineProps \<Rightarrow> ConfigRepository" where
  "newConfigRepository props =
     \<lparr>repositoryName = nullish (qualifier props) ''aws-accelerator'' @ ''-config'',
      repositoryBranchName = ''main'',
      description = ''AWS Accelerator configuration repository, created and initialized with default config file by pipeline''\<rparr>"

text \<open>
  Lines 102 to 123: the pipeline before any stage is added. The library's constructor
  checks the properties of line 106 and may throw; the warning of the role's policy is
  suppressed afterwards (lines 113 to 123).
\<close>

definition newPipelineRole :: Role where
  "newPipelineRole =
     \<lparr>roleId = ''PipelineRole'', assumedBy = ''codepipeline.amazonaws.com'', managedPolicies = []\<rparr>"

definition pipelineResource :: "Stack \<Rightarrow> AcceleratorPipelineProps \<Rightarrow> Pipeline" where
  "pipelineResource stack props =
     \<lparr>pipelineName =
        (if truthy (qualifier props) then interpolate (qualifier props) @ ''-pipeline''
         else ''AWSAccelerator-Pipeline''),
      artifactBucket = secureBucket stack props,
      pipelineRoleOf = newPipelineRole,
      policySuppress = [],
      stages = []\<rparr>"

definition newPipeline :: "Library \<Rightarrow> Stack \<Rightarrow> AcceleratorPipelineProps \<Rightarrow> error + Pipeline" where
  "newPipeline cdk stack props =
     (case validatePipeline cdk (pipelineResource stack props) of
        Some e \<Rightarrow> Inl e
      | None \<Rightarrow>
          Inr ((pipelineResource stack props)
            \<lparr>policySuppress :=
               [\<lparr>ruleId = ''W76'',
                 reason = ''This policy is generated by CDK which can cause a high SPCM score.''\<rparr>]\<rparr>))"

text \<open>Lines 151 to 187: the build project.\<close>

definition newBuildProject :: "AcceleratorPipelineProps \<Rightarrow> PipelineProject" where
  "newBuildProject props =
     \<lparr>projectName =
        (if truthy (qualifier props) then interpolate (qualifier props) @ ''-build-project''
         else ''AWSAccelerator-BuildProject''),
      projectRole =
        \<lparr>roleId = ''BuildRole'', assumedBy = ''codebuild.amazonaws.com'', managedPolicies = []\<rparr>,
      timeout = None,
      buildSpec =
        \<lparr>version = ''0.2'',
         nodejs = 14,
         commands = [''env'', ''cd source'', ''yarn install'', ''yarn lerna link'', ''yarn build''],
         artifacts = Some \<lparr>files = [''**/*''], enableSymlinks = ''yes''\<rparr>\<rparr>,
      environment =
        \<lparr>buildImage = STANDARD_5_0,
         privileged = True,
         computeType = MEDIUM,
         projectVariables =
           [(''NODE_OPTIONS'', \<lparr>envType = PLAINTEXT, envValue = ''--max_old_space_size=4096''\<rparr>)]\<rparr>,
      cache = LocalSource\<rparr>"

text \<open>Lines 208 to 254: the toolkit role and the toolkit project.\<close>

definition newToolkitRole :: Role where
  "newToolkitRole =
     \<lparr>roleId = ''ToolkitRole'', assumedBy = ''codebuild.amazonaws.com'',
      managedPolicies = [''AdministratorAccess'']\<rparr>"

definition toolkitCommands :: "Stack \<Rightarrow> string list" where
  \<open>toolkitCommands stack =
     [''env'',
      ''cd source'',
      ''cd packages/@aws-accelerator/accelerator'',
      ''if [ -z "${ACCELERATOR_STAGE}" ]; then yarn run ts-node --transpile-only cdk.ts synth --require-approval never --config-dir $CODEBUILD_SRC_DIR_Config --partition ''
        @ PARTITION stack @ ''; fi'',
      ''if [ ! -z "${ACCELERATOR_STAGE}" ]; then yarn run ts-node --transpile-only cdk.ts synth --stage $ACCELERATOR_STAGE --require-approval never --config-dir $CODEBUILD_SRC_DIR_Config --partition ''
        @ PARTITION stack @ ''; fi'',
      ''yarn run ts-node --transpile-only cdk.ts --require-approval never $CDK_OPTIONS --config-dir $CODEBUILD_SRC_DIR_Config --partition ''
        @ PARTITION stack @ '' --app cdk.out'']\<close>

definition newToolkitProject :: "Stack \<Rightarrow> AcceleratorPipelineProps \<Rightarrow> PipelineProject" where
  "newToolkitProject stack props =
     \<lparr>projectName =
        (if truthy (qualifier props) then interpolate (qualifier props) @ ''-toolkit-project''
         else ''AWSAccelerator-ToolkitProject''),
      projectRole = newToolkitRole,
      timeout = Some (hours 5),
      buildSpec =
        \<lparr>version = ''0.2'', nodejs = 14, commands = toolkitCommands stack, artifacts = None\<rparr>,
      environment =
        \<lparr>buildImage = STANDARD_5_0,
         privileged = True,
         computeType = MEDIUM,
         projectVariables =
           spread
             [(''NODE_OPTIONS'', \<lparr>envType = PLAINTEXT, envValue = ''--max_old_space_size=4096''\<rparr>),
              (''CDK_NEW_BOOTSTRAP'', \<lparr>envType = PLAINTEXT, envValue = ''1''\<rparr>)]
             (pipelineAccountEnvVariables props)\<rparr>,
      cache = LocalSource\<rparr>"

text \<open>
  The fields of the object, all assigned before \<open>createToolkitStage\<close> is first called
  (lines 102, 125, 126, 189, 208 and 213).
\<close>

definition newFields :: "Stack \<Rightarrow> AcceleratorPipelineProps \<Rightarrow> AcceleratorPipeline" where
  "newFields stack props =
     \<lparr>pipelineRole = newPipelineRole,
      toolkitRole = newToolkitRole,
      toolkitProject = newToolkitProject stack props,
      buildOutput = Artifact ''Build'',
      acceleratorRepoArtifact = Artifact ''Source'',
      configRepoArtifact = Artifact ''Config''\<rparr>"

text \<open>
  \<^verbatim>\<open>pipeline.addStage\<close> appends a stage to the pipeline. The actions of a stage are
  evaluated from left to right before the stage is added, and the stages are added in the
  order of the statements; the first error ends the construction, as an exception would.
\<close>

fun collect :: "(error + 'a) list \<Rightarrow> error + 'a list" where
  "collect [] = Inr []"
| "collect (x # xs) =
     (case x of
        Inl e \<Rightarrow> Inl e
      | Inr a \<Rightarrow> (case collect xs of Inl e \<Rightarrow> Inl e | Inr as \<Rightarrow> Inr (a # as)))"

definition newStage :: "string \<Rightarrow> (error + Action) list \<Rightarrow> error + StageProps" where
  "newStage name as =
     (case collect as of
        Inl e \<Rightarrow> Inl e
      | Inr acts \<Rightarrow> Inr \<lparr>stageName = name, actions = acts\<rparr>)"

definition addStage :: "Pipeline \<Rightarrow> StageProps \<Rightarrow> Pipeline" where
  "addStage p props = p\<lparr>stages := stages p @ [props]\<rparr>"

fun addStages :: "Pipeline \<Rightarrow> (error + StageProps) list \<Rightarrow> error + Pipeline" where
  "addStages p [] = Inr p"
| "addStages p (s # ss) =
     (case s of Inl e \<Rightarrow> Inl e | Inr props \<Rightarrow> addStages (addStage p props) ss)"

text \<open>
  Lines 128 to 367: the \<^verbatim>\<open>addStage\<close> statements of the constructor, in their order. The
  Review stage is added under \<^verbatim>\<open>if (props.enableApprovalStage)\<close>. The two source actions
  go through the library's check of their properties.
\<close>

definition newCodeCommitSourceAction ::
  "Library \<Rightarrow> CodeCommitSourceActionProps \<Rightarrow> error + Action" where
  "newCodeCommitSourceAction cdk props =
     (case validateSourceAction cdk props of
        Some e \<Rightarrow> Inl e
      | None \<Rightarrow> Inr (CodeCommitSourceAction props))"

definition stageStatements ::
  "Library \<Rightarrow> AcceleratorPipeline \<Rightarrow> ConfigRepository \<Rightarrow> PipelineProject \<Rightarrow>
   AcceleratorStage \<Rightarrow> AcceleratorPipelineProps \<Rightarrow> (error + StageProps) list" where
  "stageStatements cdk self configRepo buildProj AcceleratorStage props =
     [newStage ''Source''
        [newCodeCommitSourceAction cdk
           \<lparr>actionName = ''Source'', runOrder = None,
            repository = fromRepositoryName (sourceRepositoryName props),
            branch = sourceBranchName props,
            sourceOutput = acceleratorRepoArtifact self,
            trigger = NONE\<rparr>,
         newCodeCommitSourceAction cdk
           \<lparr>actionName = ''Configuration'', runOrder = None,
            repository = getRepository configRepo,
            branch = ''main'',
            sourceOutput = configRepoArtifact self,
            trigger = NONE\<rparr>],
      newStage ''Build''
        [Inr (CodeBuildAction
           \<lparr>actionName = ''Build'', runOrder = None,
            project = buildProj,
            primaryInput = acceleratorRepoArtifact self,
            extraInputs = [configRepoArtifact self],
            outputs = Some [buildOutput self],
            role = pipelineRole self,
            environmentVariables = None\<rparr>)],
      newStage ''Prepare''
        [createToolkitStage self
           \<lparr>actionName = ''Prepare'', runOrder = None,
            command = ''deploy'', stage = Some (PREPARE AcceleratorStage)\<rparr>],
      newStage ''Accounts''
        [createToolkitStage self
           \<lparr>actionName = ''Accounts'', runOrder = None,
            command = ''deploy'', stage = Some (ACCOUNTS AcceleratorStage)\<rparr>],
      newStage ''Bootstrap''
        [createToolkitStage self
           \<lparr>actionName = ''Bootstrap'', runOrder = None,
            command = ''bootstrap'', stage = None\<rparr>]]
     @ (if enableApprovalStage props
        then [newStage ''Review''
                [createToolkitStage self
                   \<lparr>actionName = ''Diff'', runOrder = Some 1,
                    command = ''diff'', stage = None\<rparr>,
                 Inr (ManualApprovalAction
                   \<lparr>actionName = ''Approve'', runOrder = Some 2,
                    additionalInformation = ''See previous stage (Diff) for changes.''\<rparr>)]]
        else [])
     @ [newStage ''Logging''
          [createToolkitStage self
             \<lparr>actionName = ''Logging'', runOrder = None,
              command = ''deploy'', stage = Some (LOGGING AcceleratorStage)\<rparr>],
        newStage ''Organization''
          [createToolkitStage self
             \<lparr>actionName = ''Organizations'', runOrder = None,
              command = ''deploy'', stage = Some (ORGANIZATIONS AcceleratorStage)\<rparr>],
        newStage ''SecurityAudit''
          [createToolkitStage self
             \<lparr>actionName = ''SecurityAudit'', runOrder = None,
              command = ''deploy'', stage = Some (SECURITY_AUDIT AcceleratorStage)\<rparr>],
        newStage ''Deploy''
          [createToolkitStage self
             \<lparr>actionName = ''Network_Prepare'', runOrder = Some 1,
              command = ''deploy'', stage = Some (NETWORK_PREP AcceleratorStage)\<rparr>,
           createToolkitStage self
             \<lparr>actionName = ''Security'', runOrder = Some 1,
              command = ''deploy'', stage = Some (SECURITY AcceleratorStage)\<rparr>,
           createToolkitStage self
             \<lparr>actionName = ''Operations'', runOrder = Some 1,
              command = ''deploy'', stage = Some (OPERATIONS AcceleratorStage)\<rparr>,
           createToolkitStage self
             \<lparr>actionName = ''Network_VPCs'', runOrder = Some 2,
              command = ''deploy'', stage = Some (NETWORK_VPC AcceleratorStage)\<rparr>,
           createToolkitStage self
             \<lparr>actionName = ''Network_Associations'', runOrder = Some 3,
              command = ''deploy'', stage = Some (NETWORK_ASSOCIATIONS AcceleratorStage)\<rparr>]]"

definition new_AcceleratorPipeline ::
  "Library \<Rightarrow> Stack \<Rightarrow> AcceleratorStage \<Rightarrow> AcceleratorPipelineProps \<Rightarrow>
   error + Construct" where
  "new_AcceleratorPipeline cdk stack AcceleratorStage props =
     (let self = newFields stack props;
          configRepo = newConfigRepository props;
          buildProj = newBuildProject props
      in case newPipeline cdk stack props of
           Inl e \<Rightarrow> Inl e
         | Inr p0 \<Rightarrow>
             (case addStages p0
                     (stageStatements cdk self configRepo buildProj AcceleratorStage props) of
                Inl e \<Rightarrow> Inl e
              | Inr p \<Rightarrow>
                  Inr \<lparr>this = self,
                       bucket = secureBucket stack props,
                       configRepository = configRepo,
                       buildProject = buildProj,
                       pipeline = p\<rparr>))"

text \<open>
  A concrete stack and stage enumeration for the examples. The tags are those the spec
  mentions (\<^verbatim>\<open>accounts\<close>, \<^verbatim>\<open>logging\<close>, \<^verbatim>\<open>network-vpc\<close>) and tags formed the same way for
  the other members.
\<close>

definition exampleStack :: Stack where
  "exampleStack = \<lparr>account = ''111122223333'', region = ''us-east-1'', PARTITION = ''aws''\<rparr>"

definition exampleStages :: AcceleratorStage where
  "exampleStages =
     \<lparr>PREPARE = ''prepare'', ACCOUNTS = ''accounts'', LOGGING = ''logging'',
      ORGANIZATIONS = ''organizations'', SECURITY_AUDIT = ''security-audit'',
      NETWORK_PREP = ''network-prep'', SECURITY = ''security'', OPERATIONS = ''operations'',
      NETWORK_VPC = ''network-vpc'', NETWORK_ASSOCIATIONS = ''network-associations''\<rparr>"

definition exampleProps :: AcceleratorPipelineProps where
  "exampleProps =
     \<lparr>sourceRepositoryName = ''aws-accelerator-source'', sourceBranchName = ''release'',
      enableApprovalStage = True, qualifier = None,
      managementAccountId = None, managementAccountRoleName = None\<rparr>"

text \<open>A configuration that supplies the management account id without the role name.\<close>

definition idOnlyProps :: AcceleratorPipelineProps where
  "idOnlyProps = exampleProps\<lparr>managementAccountId := Some ''111122223333''\<rparr>"

section \<open>Properties\<close>

lemmas factory_defs = createToolkitStage_def toolkitVariables_def cdkOptions_def truthy_def
  interpolate_def nullish_def

lemmas constructor_defs = new_AcceleratorPipeline_def stageStatements_def newStage_def
  addStage_def createToolkitStage_def newPipeline_def pipelineResource_def
  newCodeCommitSourceAction_def newFields_def Let_def

lemmas library_defs = awsCdkLib_def validName_def nameCharacter_def

lemma pipelineAccountEnvVariables_incomplete:
  "\<not> (truthy (managementAccountId props) \<and> truthy (managementAccountRoleName props)) \<Longrightarrow>
   pipelineAccountEnvVariables props = None"
  by (simp add: pipelineAccountEnvVariables_def)

lemma truthy_None: "truthy None = False"
  by (simp add: truthy_def)

subsection \<open>The action factory\<close>

text \<open>
  C1, as the claim states it: a descriptor with the verb \<^verbatim>\<open>deploy\<close> and an empty or absent
  stage tag makes \<open>createToolkitStage\<close> fail, and never yields an action with a malformed
  command string. The method has no check of the stage tag. For the descriptor
  \<^verbatim>\<open>{ actionName: 'Prepare', command: 'deploy' }\<close> it returns an action, and the command
  string of that action is \<^verbatim>\<open>deploy --stage undefined\<close>.
\<close>

theorem createToolkitStage_deploy_without_stage_counterexample:
  "\<not> isl (createToolkitStage (newFields exampleStack exampleProps)
            \<lparr>actionName = ''Prepare'', runOrder = None, command = ''deploy'', stage = None\<rparr>)
   \<and> createToolkitStage (newFields exampleStack exampleProps)
         \<lparr>actionName = ''Prepare'', runOrder = None, command = ''deploy'', stage = None\<rparr>
       = Inr (CodeBuildAction
           \<lparr>actionName = ''Prepare'', runOrder = None,
            project = newToolkitProject exampleStack exampleProps,
            primaryInput = Artifact ''Build'', extraInputs = [Artifact ''Config''],
            outputs = None, role = newPipelineRole,
            environmentVariables = Some
              [(''CDK_OPTIONS'',
                \<lparr>envType = PLAINTEXT, envValue = ''deploy --stage undefined''\<rparr>)]\<rparr>)"
  by (simp add: factory_defs newFields_def)

text \<open>
  C1, amended: for every descriptor with the verb \<^verbatim>\<open>deploy\<close> and an empty or absent stage
  tag, \<open>createToolkitStage\<close> does not fail. It returns the action whose only environment
  variable is \<^verbatim>\<open>CDK_OPTIONS\<close>, with the value \<^verbatim>\<open>deploy --stage undefined\<close> when the tag is
  absent and \<^verbatim>\<open>deploy --stage \<close> (ending in a space) when the tag is the empty string.
\<close>

theorem createToolkitStage_deploy_without_stage:
  assumes verb: "command props = ''deploy''"
    and tag: "stage props = None \<or> stage props = Some ''''"
  shows "createToolkitStage self props =
     Inr (CodeBuildAction
       \<lparr>actionName = actionName props, runOrder = runOrder props,
        project = toolkitProject self,
        primaryInput = buildOutput self, extraInputs = [configRepoArtifact self],
        outputs = None, role = pipelineRole self,
        environmentVariables = Some
          [(''CDK_OPTIONS'',
            \<lparr>envType = PLAINTEXT,
             envValue = (if stage props = None then ''deploy --stage undefined''
                         else ''deploy --stage '')\<rparr>)]\<rparr>)"
proof -
  have falsy: "\<not> truthy (stage props)"
    using tag by (auto simp add: truthy_def)
  have "cdkOptions props =
      (if stage props = None then ''deploy --stage undefined'' else ''deploy --stage '')"
    using verb tag by (auto simp add: cdkOptions_def interpolate_def)
  with falsy show ?thesis
    by (simp add: createToolkitStage_def toolkitVariables_def)
qed

theorem createToolkitStage_deploy_without_stage_witness:
  "createToolkitStage (newFields exampleStack exampleProps)
     \<lparr>actionName = ''Accounts'', runOrder = Some 1, command = ''deploy'', stage = Some ''''\<rparr>
   = Inr (CodeBuildAction
       \<lparr>actionName = ''Accounts'', runOrder = Some 1,
        project = newToolkitProject exampleStack exampleProps,
        primaryInput = Artifact ''Build'', extraInputs = [Artifact ''Config''],
        outputs = None, role = newPipelineRole,
        environmentVariables = Some
          [(''CDK_OPTIONS'', \<lparr>envType = PLAINTEXT, envValue = ''deploy --stage ''\<rparr>)]\<rparr>)"
  using createToolkitStage_deploy_without_stage
    [of "\<lparr>actionName = ''Accounts'', runOrder = Some 1, command = ''deploy'', stage = Some ''''\<rparr>"
        "newFields exampleStack exampleProps"]
  by (simp add: newFields_def)

text \<open>
  C4, as the claim states it: the stage tag is attached under \<^verbatim>\<open>ACCELERATOR_STAGE\<close> exactly
  when a stage tag was supplied. The method attaches it under \<^verbatim>\<open>if (props.stage)\<close>, which
  is false for the empty string: the descriptor
  \<^verbatim>\<open>{ actionName: 'Logging', command: 'deploy', stage: '' }\<close> supplies a tag and the action
  has no \<^verbatim>\<open>ACCELERATOR_STAGE\<close>.
\<close>

theorem createToolkitStage_variables_counterexample:
  "stage \<lparr>actionName = ''Logging'', runOrder = None, command = ''deploy'', stage = Some ''''\<rparr>
     = Some ''''
   \<and> createToolkitStage (newFields exampleStack exampleProps)
         \<lparr>actionName = ''Logging'', runOrder = None, command = ''deploy'', stage = Some ''''\<rparr>
       = Inr (CodeBuildAction
           \<lparr>actionName = ''Logging'', runOrder = None,
            project = newToolkitProject exampleStack exampleProps,
            primaryInput = Artifact ''Build'', extraInputs = [Artifact ''Config''],
            outputs = None, role = newPipelineRole,
            environmentVariables = Some
              [(''CDK_OPTIONS'', \<lparr>envType = PLAINTEXT, envValue = ''deploy --stage ''\<rparr>)]\<rparr>)
   \<and> map_of (toolkitVariables
         \<lparr>actionName = ''Logging'', runOrder = None, command = ''deploy'', stage = Some ''''\<rparr>)
        ''ACCELERATOR_STAGE'' = None"
  by (simp add: factory_defs newFields_def)

text \<open>
  C4, amended: for every descriptor, \<open>createToolkitStage\<close> returns an action whose
  environment variables are \<^verbatim>\<open>CDK_OPTIONS\<close> and, exactly when a non-empty stage tag was
  supplied, \<^verbatim>\<open>ACCELERATOR_STAGE\<close> with that tag verbatim. The value of \<^verbatim>\<open>CDK_OPTIONS\<close> is the
  bare verb for \<^verbatim>\<open>bootstrap\<close> and \<^verbatim>\<open>diff\<close>, and for \<^verbatim>\<open>deploy\<close> it is \<^verbatim>\<open>deploy --stage \<close>
  followed by the stage tag (by the word \<^verbatim>\<open>undefined\<close> when no tag was supplied).
\<close>

theorem createToolkitStage_variables:
  "\<exists>a vs. createToolkitStage self props = Inr (CodeBuildAction a)
     \<and> environmentVariables a = Some vs
     \<and> (command props = ''bootstrap'' \<or> command props = ''diff'' \<longrightarrow>
          map_of vs ''CDK_OPTIONS'' = Some \<lparr>envType = PLAINTEXT, envValue = command props\<rparr>)
     \<and> (command props = ''deploy'' \<longrightarrow>
          map_of vs ''CDK_OPTIONS'' =
            Some \<lparr>envType = PLAINTEXT,
                  envValue = ''deploy --stage ''
                    @ (case stage props of None \<Rightarrow> ''undefined'' | Some t \<Rightarrow> t)\<rparr>)
     \<and> map_of vs ''CDK_OPTIONS'' \<noteq> None
     \<and> map_of vs ''ACCELERATOR_STAGE'' =
          (case stage props of
             None \<Rightarrow> None
           | Some t \<Rightarrow> if t = [] then None else Some \<lparr>envType = PLAINTEXT, envValue = t\<rparr>)
     \<and> map fst vs =
          ''CDK_OPTIONS''
          # (if map_of vs ''ACCELERATOR_STAGE'' = None then [] else [''ACCELERATOR_STAGE''])"
proof (cases "stage props")
  case None
  then show ?thesis
    by (simp add: factory_defs)
next
  case (Some t)
  then show ?thesis
    by (cases "t = []") (simp_all add: factory_defs)
qed

theorem createToolkitStage_variables_witness:
  "createToolkitStage (newFields exampleStack exampleProps)
     \<lparr>actionName = ''Logging'', runOrder = None, command = ''deploy'', stage = Some ''logging''\<rparr>
   = Inr (CodeBuildAction
       \<lparr>actionName = ''Logging'', runOrder = None,
        project = newToolkitProject exampleStack exampleProps,
        primaryInput = Artifact ''Build'', extraInputs = [Artifact ''Config''],
        outputs = None, role = newPipelineRole,
        environmentVariables = Some
          [(''CDK_OPTIONS'', \<lparr>envType = PLAINTEXT, envValue = ''deploy --stage logging''\<rparr>),
           (''ACCELERATOR_STAGE'', \<lparr>envType = PLAINTEXT, envValue = ''logging''\<rparr>)]\<rparr>)
   \<and> map_of (toolkitVariables
         \<lparr>actionName = ''Logging'', runOrder = None, command = ''deploy'',
          stage = Some ''logging''\<rparr>) ''CDK_OPTIONS''
       = Some \<lparr>envType = PLAINTEXT, envValue = ''deploy --stage logging''\<rparr>
   \<and> map_of (toolkitVariables
         \<lparr>actionName = ''Diff'', runOrder = Some 1, command = ''diff'', stage = None\<rparr>)
         ''CDK_OPTIONS''
       = Some \<lparr>envType = PLAINTEXT, envValue = ''diff''\<rparr>"
  using createToolkitStage_variables
    [of "newFields exampleStack exampleProps"
        "\<lparr>actionName = ''Logging'', runOrder = None, command = ''deploy'',
          stage = Some ''logging''\<rparr>"]
  by (simp add: factory_defs newFields_def)

text \<open>
  C7: every action \<open>createToolkitStage\<close> produces has the build output artifact as its
  primary input and the configuration artifact as its single extra input, and declares no
  output artifact. In the constructed object these two artifacts are \<^verbatim>\<open>Build\<close>, which the
  Build stage writes, and \<^verbatim>\<open>Config\<close>, which the Configuration action writes.
\<close>

theorem createToolkitStage_artifacts:
  "\<exists>a. createToolkitStage self props = Inr (CodeBuildAction a)
     \<and> primaryInput a = buildOutput self
     \<and> extraInputs a = [configRepoArtifact self]
     \<and> outputs a = None
     \<and> buildOutput (newFields stack config) = Artifact ''Build''
     \<and> configRepoArtifact (newFields stack config) = Artifact ''Config''"
  by (simp add: createToolkitStage_def newFields_def)

theorem createToolkitStage_artifacts_witness:
  "(case createToolkitStage (newFields exampleStack exampleProps)
            \<lparr>actionName = ''Security'', runOrder = Some 1, command = ''deploy'',
             stage = Some ''security''\<rparr> of
      Inr (CodeBuildAction a) \<Rightarrow> (primaryInput a, extraInputs a, outputs a)
    | _ \<Rightarrow> (Artifact '''', [], None))
   = (Artifact ''Build'', [Artifact ''Config''], None)"
  using createToolkitStage_artifacts
    [of "newFields exampleStack exampleProps"
        "\<lparr>actionName = ''Security'', runOrder = Some 1, command = ''deploy'',
          stage = Some ''security''\<rparr>" exampleStack exampleProps]
  by auto

subsection \<open>The constructor: when it returns, and what\<close>

lemmas accept_defs = constructor_defs acceptAll_def

lemma construction_fails_pipeline:
  "validatePipeline cdk (pipelineResource stack props) = Some e \<Longrightarrow>
   new_AcceleratorPipeline cdk stack tags props = Inl e"
  by (simp add: new_AcceleratorPipeline_def newPipeline_def)

lemma construction_fails_on_invalid_name:
  "new_AcceleratorPipeline awsCdkLib exampleStack exampleStages
     (exampleProps\<lparr>qualifier := Some ''my qualifier''\<rparr>)
   = Inl (ConfigurationError ''Pipeline name must match [a-zA-Z0-9.@_-]{1,100}'')"
  by (simp add: constructor_defs library_defs exampleProps_def truthy_def interpolate_def)

lemma construction_fails_on_empty_branch:
  "new_AcceleratorPipeline awsCdkLib exampleStack exampleStages
     (exampleProps\<lparr>sourceBranchName := ''''\<rparr>)
   = Inl (ConfigurationError ''branch parameter cannot be an empty string'')"
  by (simp add: constructor_defs library_defs exampleProps_def truthy_def)

lemma example_succeeds:
  "new_AcceleratorPipeline awsCdkLib exampleStack exampleStages exampleProps =
   Inr (projr (new_AcceleratorPipeline awsCdkLib exampleStack exampleStages exampleProps))"
  by (simp add: constructor_defs library_defs exampleProps_def truthy_def)

lemma construction_Inr:
  assumes "new_AcceleratorPipeline cdk stack tags props = Inr p"
  shows "new_AcceleratorPipeline acceptAll stack tags props = Inr p"
  using assms
  by (auto simp add: constructor_defs acceptAll_def split: option.splits if_splits)

lemma construction_projr:
  assumes "new_AcceleratorPipeline cdk stack tags props = Inr p"
  shows "p = projr (new_AcceleratorPipeline acceptAll stack tags props)"
  using construction_Inr [OF assms] by simp

lemma construction_components:
  assumes "new_AcceleratorPipeline cdk stack tags props = Inr p"
  shows "this p = newFields stack props"
    and "bucket p = secureBucket stack props"
    and "configRepository p = newConfigRepository props"
    and "buildProject p = newBuildProject props"
  using assms
  by (auto simp add: new_AcceleratorPipeline_def Let_def split: sum.splits)



lemma construction_succeeds:
  assumes "validatePipeline cdk (pipelineResource stack props) = None"
    and "validateSourceAction cdk
           \<lparr>actionName = ''Source'', runOrder = None,
            repository = fromRepositoryName (sourceRepositoryName props),
            branch = sourceBranchName props,
            sourceOutput = Artifact ''Source'', trigger = NONE\<rparr> = None"
    and "validateSourceAction cdk
           \<lparr>actionName = ''Configuration'', runOrder = None,
            repository = getRepository (newConfigRepository props),
            branch = ''main'',
            sourceOutput = Artifact ''Config'', trigger = NONE\<rparr> = None"
  shows "new_AcceleratorPipeline cdk stack tags props =
         new_AcceleratorPipeline acceptAll stack tags props"
    and "\<not> isl (new_AcceleratorPipeline cdk stack tags props)"
proof -
  have stmts: "stageStatements cdk (newFields stack props) (newConfigRepository props)
      (newBuildProject props) tags props =
    stageStatements acceptAll (newFields stack props) (newConfigRepository props)
      (newBuildProject props) tags props"
    using assms(2,3)
    by (simp add: stageStatements_def newCodeCommitSourceAction_def acceptAll_def newFields_def)
  have pipe: "newPipeline cdk stack props = newPipeline acceptAll stack props"
    using assms(1) by (simp add: newPipeline_def acceptAll_def)
  show eq: "new_AcceleratorPipeline cdk stack tags props =
         new_AcceleratorPipeline acceptAll stack tags props"
    unfolding new_AcceleratorPipeline_def Let_def stmts pipe by (rule refl)
  show "\<not> isl (new_AcceleratorPipeline cdk stack tags props)"
    unfolding eq by (simp add: accept_defs)
qed

lemma construction_fails_source:
  assumes "validatePipeline cdk (pipelineResource stack props) = None"
    and "validateSourceAction cdk
           \<lparr>actionName = ''Source'', runOrder = None,
            repository = fromRepositoryName (sourceRepositoryName props),
            branch = sourceBranchName props,
            sourceOutput = Artifact ''Source'', trigger = NONE\<rparr> = Some e"
  shows "new_AcceleratorPipeline cdk stack tags props = Inl e"
proof -
  have "hd (stageStatements cdk (newFields stack props) (newConfigRepository props)
      (newBuildProject props) tags props) = Inl e"
    using assms(2)
    by (simp add: stageStatements_def newStage_def newCodeCommitSourceAction_def newFields_def)
  moreover have "stageStatements cdk (newFields stack props) (newConfigRepository props)
      (newBuildProject props) tags props \<noteq> []"
    by (simp add: stageStatements_def)
  ultimately have "addStages q (stageStatements cdk (newFields stack props)
      (newConfigRepository props) (newBuildProject props) tags props) = Inl e" for q
    by (cases "stageStatements cdk (newFields stack props) (newConfigRepository props)
      (newBuildProject props) tags props") simp_all
  with assms(1) show ?thesis
    by (simp add: new_AcceleratorPipeline_def newPipeline_def Let_def)
qed



lemma account_components:
  assumes "pipelineAccountEnvVariables props = None"
  shows "newToolkitProject stack
           (props\<lparr>managementAccountId := None, managementAccountRoleName := None\<rparr>)
         = newToolkitProject stack props"
    and "secureBucket stack
           (props\<lparr>managementAccountId := None, managementAccountRoleName := None\<rparr>)
         = secureBucket stack props"
    and "newConfigRepository
           (props\<lparr>managementAccountId := None, managementAccountRoleName := None\<rparr>)
         = newConfigRepository props"
    and "newBuildProject
           (props\<lparr>managementAccountId := None, managementAccountRoleName := None\<rparr>)
         = newBuildProject props"
    and "pipelineResource stack
           (props\<lparr>managementAccountId := None, managementAccountRoleName := None\<rparr>)
         = pipelineResource stack props"
    and "stageStatements cdk self configRepo buildProj tags
           (props\<lparr>managementAccountId := None, managementAccountRoleName := None\<rparr>)
         = stageStatements cdk self configRepo buildProj tags props"
  using assms
  by (simp_all add: newToolkitProject_def pipelineAccountEnvVariables_def truthy_None
      secureBucket_def newConfigRepository_def newBuildProject_def pipelineResource_def
      stageStatements_def)

subsection \<open>The constructor: the claims\<close>

text \<open>
  C2, as the claim states it: a configuration that supplies exactly one of
  \<^verbatim>\<open>managementAccountId\<close> and \<^verbatim>\<open>managementAccountRoleName\<close> makes the construction fail.
  The constructor tests \<^verbatim>\<open>props.managementAccountId && props.managementAccountRoleName\<close>
  and has no other branch: with the account id alone, and a name and a branch the library
  accepts, the construction succeeds, and the toolkit project has the two fixed variables
  only.
\<close>

theorem management_account_pair_counterexample:
  "\<not> isl (new_AcceleratorPipeline awsCdkLib exampleStack exampleStages idOnlyProps)
   \<and> managementAccountId idOnlyProps = Some ''111122223333''
   \<and> managementAccountRoleName idOnlyProps = None
   \<and> projectVariables (environment (toolkitProject
         (this (projr (new_AcceleratorPipeline awsCdkLib exampleStack exampleStages
            idOnlyProps))))) =
       [(''NODE_OPTIONS'', \<lparr>envType = PLAINTEXT, envValue = ''--max_old_space_size=4096''\<rparr>),
        (''CDK_NEW_BOOTSTRAP'', \<lparr>envType = PLAINTEXT, envValue = ''1''\<rparr>)]"
  by (simp add: constructor_defs library_defs idOnlyProps_def exampleProps_def
      newToolkitProject_def pipelineAccountEnvVariables_def truthy_def)

text \<open>
  C2, amended: for every configuration that supplies exactly one of
  \<^verbatim>\<open>managementAccountId\<close> and \<^verbatim>\<open>managementAccountRoleName\<close>, the lone value is ignored and no
  error is raised for the missing partner: the outcome of the construction (the
  description, or the error of the library) is the outcome for the same configuration with
  both absent, and in a description so constructed the toolkit project has the variables
  \<^verbatim>\<open>NODE_OPTIONS\<close> and \<^verbatim>\<open>CDK_NEW_BOOTSTRAP\<close> only.
\<close>

theorem management_account_pair_incomplete:
  assumes one: "(managementAccountId props = None) \<noteq> (managementAccountRoleName props = None)"
  shows "new_AcceleratorPipeline cdk stack tags props =
         new_AcceleratorPipeline cdk stack tags
           (props\<lparr>managementAccountId := None, managementAccountRoleName := None\<rparr>)
     \<and> (\<forall>p. new_AcceleratorPipeline cdk stack tags props = Inr p \<longrightarrow>
           projectVariables (environment (toolkitProject (this p))) =
             [(''NODE_OPTIONS'',
               \<lparr>envType = PLAINTEXT, envValue = ''--max_old_space_size=4096''\<rparr>),
              (''CDK_NEW_BOOTSTRAP'', \<lparr>envType = PLAINTEXT, envValue = ''1''\<rparr>)])"
proof (intro conjI allI impI)
  from one
  have "\<not> (truthy (managementAccountId props) \<and> truthy (managementAccountRoleName props))"
    by (auto simp add: truthy_def)
  then have none: "pipelineAccountEnvVariables props = None"
    by (rule pipelineAccountEnvVariables_incomplete)
  note same = account_components [OF none]
  show "new_AcceleratorPipeline cdk stack tags props =
         new_AcceleratorPipeline cdk stack tags
           (props\<lparr>managementAccountId := None, managementAccountRoleName := None\<rparr>)"
    unfolding new_AcceleratorPipeline_def newPipeline_def newFields_def same
    by (rule refl)
  fix p
  assume "new_AcceleratorPipeline cdk stack tags props = Inr p"
  then have "toolkitProject (this p) = newToolkitProject stack props"
    by (simp add: construction_components(1) newFields_def)
  with none show "projectVariables (environment (toolkitProject (this p))) =
             [(''NODE_OPTIONS'',
               \<lparr>envType = PLAINTEXT, envValue = ''--max_old_space_size=4096''\<rparr>),
              (''CDK_NEW_BOOTSTRAP'', \<lparr>envType = PLAINTEXT, envValue = ''1''\<rparr>)]"
    by (simp add: newToolkitProject_def)
qed

theorem management_account_pair_incomplete_witness:
  "new_AcceleratorPipeline awsCdkLib exampleStack exampleStages
        (exampleProps\<lparr>managementAccountRoleName := Some ''AWSControlTowerExecution''\<rparr>)
     = new_AcceleratorPipeline awsCdkLib exampleStack exampleStages exampleProps
   \<and> \<not> isl (new_AcceleratorPipeline awsCdkLib exampleStack exampleStages exampleProps)
   \<and> projectVariables (environment (toolkitProject
        (this (projr (new_AcceleratorPipeline awsCdkLib exampleStack exampleStages
           (exampleProps\<lparr>managementAccountRoleName := Some ''AWSControlTowerExecution''\<rparr>)))))) =
       [(''NODE_OPTIONS'', \<lparr>envType = PLAINTEXT, envValue = ''--max_old_space_size=4096''\<rparr>),
        (''CDK_NEW_BOOTSTRAP'', \<lparr>envType = PLAINTEXT, envValue = ''1''\<rparr>)]"
proof -
  let ?props = "exampleProps\<lparr>managementAccountRoleName := Some ''AWSControlTowerExecution''\<rparr>"
  have one: "(managementAccountId ?props = None) \<noteq> (managementAccountRoleName ?props = None)"
    by (simp add: exampleProps_def)
  have absent: "?props\<lparr>managementAccountId := None, managementAccountRoleName := None\<rparr>
      = exampleProps"
    by (simp add: exampleProps_def)
  have ok: "\<not> isl (new_AcceleratorPipeline awsCdkLib exampleStack exampleStages exampleProps)"
    using example_succeeds by (metis sum.disc(2))
  from management_account_pair_incomplete [OF one, of awsCdkLib exampleStack exampleStages]
  have eq: "new_AcceleratorPipeline awsCdkLib exampleStack exampleStages ?props =
      new_AcceleratorPipeline awsCdkLib exampleStack exampleStages exampleProps"
    and vars: "\<And>p. new_AcceleratorPipeline awsCdkLib exampleStack exampleStages ?props = Inr p
      \<Longrightarrow> projectVariables (environment (toolkitProject (this p))) =
       [(''NODE_OPTIONS'', \<lparr>envType = PLAINTEXT, envValue = ''--max_old_space_size=4096''\<rparr>),
        (''CDK_NEW_BOOTSTRAP'', \<lparr>envType = PLAINTEXT, envValue = ''1''\<rparr>)]"
    unfolding absent by blast+
  from eq example_succeeds
  have "new_AcceleratorPipeline awsCdkLib exampleStack exampleStages ?props =
      Inr (projr (new_AcceleratorPipeline awsCdkLib exampleStack exampleStages ?props))"
    by simp
  from vars [OF this] eq ok show ?thesis
    by simp
qed



text \<open>
  C5: in every description the constructor returns, the Deploy stage, which is the last
  stage and the only one of that name, has exactly five actions: \<^verbatim>\<open>Network_Prepare\<close>,
  \<^verbatim>\<open>Security\<close> and \<^verbatim>\<open>Operations\<close> with run order 1, \<^verbatim>\<open>Network_VPCs\<close> with run order 2 and
  \<^verbatim>\<open>Network_Associations\<close> with run order 3.
\<close>

theorem deploy_stage_run_orders:
  assumes "new_AcceleratorPipeline cdk stack tags props = Inr p"
  shows "\<exists>s. filter (\<lambda>s. stageName s = ''Deploy'') (stages (pipeline p)) = [s]
     \<and> last (stages (pipeline p)) = s
     \<and> map (\<lambda>a. (nameOf a, runOrderOf a)) (actions s) =
         [(''Network_Prepare'', Some 1), (''Security'', Some 1), (''Operations'', Some 1),
          (''Network_VPCs'', Some 2), (''Network_Associations'', Some 3)]"
  unfolding construction_projr [OF assms]
  by (simp add: accept_defs)

theorem deploy_stage_run_orders_witness:
  "\<not> isl (new_AcceleratorPipeline awsCdkLib exampleStack exampleStages exampleProps)
   \<and> map (\<lambda>a. (nameOf a, runOrderOf a))
       (actions (last (stages (pipeline (projr
          (new_AcceleratorPipeline awsCdkLib exampleStack exampleStages exampleProps)))))) =
     [(''Network_Prepare'', Some 1), (''Security'', Some 1), (''Operations'', Some 1),
      (''Network_VPCs'', Some 2), (''Network_Associations'', Some 3)]"
proof -
  have ok: "\<not> isl (new_AcceleratorPipeline awsCdkLib exampleStack exampleStages exampleProps)"
    using example_succeeds by (metis sum.disc(2))
  from deploy_stage_run_orders [OF example_succeeds] ok show ?thesis
    by auto
qed



text \<open>
  C8: for every configuration, no stage of a description the constructor returns has two
  actions of the same name.
\<close>

theorem action_names_distinct:
  assumes "new_AcceleratorPipeline cdk stack tags props = Inr p"
  shows "list_all (\<lambda>s. distinct (map nameOf (actions s))) (stages (pipeline p))"
  unfolding construction_projr [OF assms]
  by (simp add: accept_defs)

theorem action_names_distinct_witness:
  "\<not> isl (new_AcceleratorPipeline awsCdkLib exampleStack exampleStages exampleProps)
   \<and> list_all (\<lambda>s. distinct (map nameOf (actions s)))
       (stages (pipeline (projr
          (new_AcceleratorPipeline awsCdkLib exampleStack exampleStages exampleProps))))
   \<and> map (\<lambda>s. map nameOf (actions s))
       (stages (pipeline (projr
          (new_AcceleratorPipeline awsCdkLib exampleStack exampleStages exampleProps))))
     = [[''Source'', ''Configuration''], [''Build''], [''Prepare''], [''Accounts''],
        [''Bootstrap''], [''Diff'', ''Approve''], [''Logging''], [''Organizations''],
        [''SecurityAudit''],
        [''Network_Prepare'', ''Security'', ''Operations'', ''Network_VPCs'',
         ''Network_Associations'']]"
proof -
  have ok: "\<not> isl (new_AcceleratorPipeline awsCdkLib exampleStack exampleStages exampleProps)"
    using example_succeeds by (metis sum.disc(2))
  have names: "map (\<lambda>s. map nameOf (actions s))
       (stages (pipeline (projr
          (new_AcceleratorPipeline awsCdkLib exampleStack exampleStages exampleProps))))
     = [[''Source'', ''Configuration''], [''Build''], [''Prepare''], [''Accounts''],
        [''Bootstrap''], [''Diff'', ''Approve''], [''Logging''], [''Organizations''],
        [''SecurityAudit''],
        [''Network_Prepare'', ''Security'', ''Operations'', ''Network_VPCs'',
         ''Network_Associations'']]"
    by (simp add: constructor_defs library_defs exampleProps_def truthy_def)
  from action_names_distinct [OF example_succeeds] ok names show ?thesis
    by simp
qed



end
